theory Spec2Isabelle
  imports Main "HOL-Library.AList"
begin

section \<open>Data model (mailings/models.py, users/models.py)\<close>

text \<open>
  Points in time (\<^verbatim>\<open>datetime\<close> values of \<^verbatim>\<open>timezone.now()\<close> and of the
  \<^verbatim>\<open>DateTimeField\<close> columns) are integers: a totally ordered scale, as aware
  datetimes are. A datetime is always truthy in Python, so \<^verbatim>\<open>if self.start_time\<close>
  tests exactly for \<^verbatim>\<open>None\<close>; an attribute that may be \<^verbatim>\<open>None\<close> is an option.
\<close>

type_synonym datetime = int

datatype role = ROLE_USER | ROLE_MANAGER | ROLE_ADMIN

record user =
  uid :: int
  role :: role
  is_superuser :: bool

definition is_manager :: "user \<Rightarrow> bool" where
  "is_manager u = (role u = ROLE_MANAGER)"

definition is_admin_role :: "user \<Rightarrow> bool" where
  "is_admin_role u = (role u = ROLE_ADMIN)"

definition can_manage_users :: "user \<Rightarrow> bool" where
  "can_manage_users u = (is_manager u \<or> is_admin_role u \<or> is_superuser u)"

definition can_view_all_mailings :: "user \<Rightarrow> bool" where
  "can_view_all_mailings u = (is_manager u \<or> is_admin_role u \<or> is_superuser u)"

record client =
  email :: string
  full_name :: string

record message =
  subject :: string
  body :: string

datatype mailing_status = STATUS_CREATED | STATUS_STARTED | STATUS_COMPLETED

subsection \<open>The class body of Mailing and the name \<^verbatim>\<open>is_active\<close>\<close>

text \<open>
  A Python class body is executed top to bottom and every statement binds a name in the
  class namespace; a later binding of the same name replaces the earlier one. The body
  of \<^verbatim>\<open>class Mailing\<close> binds \<^verbatim>\<open>is_active\<close> twice: to a
  \<^verbatim>\<open>models.BooleanField(default=True)\<close> (models.py line 105) and, further down, to
  the function \<^verbatim>\<open>def is_active(self)\<close> (line 154). \<open>Mailing_body\<close> lists the
  bindings in source order and \<open>class_namespace\<close> is the namespace the metaclass
  receives. The model's columns are the names still bound to a field there.
\<close>

datatype binding = Field | Function | Other

definition Mailing_body :: "(string \<times> binding) list" where
  "Mailing_body =
    [(''STATUS_CREATED'', Other), (''STATUS_STARTED'', Other),
     (''STATUS_COMPLETED'', Other), (''STATUS_CHOICES'', Other),
     (''start_time'', Field), (''end_time'', Field), (''status'', Field),
     (''message'', Field), (''recipients'', Field), (''created_at'', Field),
     (''owner'', Field), (''is_active'', Field),
     (''Meta'', Other), (''__str__'', Function), (''clean'', Function),
     (''update_status'', Function), (''is_active'', Function), (''can_send'', Function)]"

definition class_namespace :: "(string \<times> binding) list \<Rightarrow> (string \<times> binding) list" where
  "class_namespace stmts = fold (\<lambda>(name, b) ns. AList.update name b ns) stmts []"

definition model_fields :: "(string \<times> binding) list \<Rightarrow> string list" where
  "model_fields stmts = map fst (filter (\<lambda>(name, b). b = Field) (class_namespace stmts))"

text \<open>
  A Mailing instance. The first eight attributes are the model's fields
  (\<open>model_fields Mailing_body\<close>, with the automatic primary key); they are what a row of
  the table holds and what \<^verbatim>\<open>save()\<close> writes. \<open>recipients\<close> is the many-to-many
  relation, read in the order \<^verbatim>\<open>mailing.recipients.all()\<close> yields it.
  \<open>inst_is_active\<close> is the entry \<^verbatim>\<open>'is_active'\<close> of the instance's own
  \<^verbatim>\<open>__dict__\<close>: absent on an instance loaded from the database, present only after
  an assignment \<^verbatim>\<open>mailing.is_active = ...\<close>; being no field, it is never written
  to the table.
\<close>

record mailing =
  pk :: "int option"
  start_time :: "datetime option"
  end_time :: "datetime option"
  status :: mailing_status
  message :: message
  recipients :: "client list"
  created_at :: datetime
  owner :: "int option"
  inst_is_active :: "bool option"

text \<open>
  What the expression \<^verbatim>\<open>mailing.is_active\<close> evaluates to: the instance's own entry
  when there is one, otherwise the class attribute, which is the function of line 154
  bound to the instance. A bound method is a truthy object.
\<close>

datatype pyval = PBool bool | PBoundMethod

definition getattr_is_active :: "mailing \<Rightarrow> pyval" where
  "getattr_is_active m = (case inst_is_active m of Some b \<Rightarrow> PBool b | None \<Rightarrow> PBoundMethod)"

fun truthy :: "pyval \<Rightarrow> bool" where
  "truthy (PBool b) = b"
| "truthy PBoundMethod = True"

datatype attempt_status = STATUS_SUCCESS | STATUS_FAILED

text \<open>
  A MailingAttempt row; \<open>att_mailing\<close> is the foreign key. The automatic columns
  \<^verbatim>\<open>id\<close> and \<^verbatim>\<open>attempt_time\<close> are left out: no operation below reads them.
\<close>

record attempt =
  att_mailing :: "int option"
  att_status :: attempt_status
  server_response :: "string option"
  recipient_email :: "string option"

text \<open>The keyword arguments of one call of \<^verbatim>\<open>send_mail\<close>.\<close>

record mail =
  mail_subject :: string
  mail_message :: string
  from_email :: string
  recipient_list :: "string list"

text \<open>
  The database and the outside world: the table of mailings keyed by primary key, the
  table of attempts in insertion order, and the calls of \<^verbatim>\<open>send_mail\<close> made so far,
  in order, whatever their outcome.
\<close>

record world =
  mailings :: "(int \<times> mailing) list"
  attempts :: "attempt list"
  outbox :: "mail list"

datatype py_error = TypeError | ValueError | DatabaseError

section \<open>Mailing lifecycle (mailings/models.py)\<close>

subsection \<open>Mailing.clean\<close>

text \<open>
  \<^verbatim>\<open>ValidationError({'end_time': ...})\<close> and \<^verbatim>\<open>ValidationError({'start_time': ...})\<close>:
  the dictionary of the raised error, as the list of its keys (the message texts are
  fixed per key; the list is empty for an error raised with a plain message).
  \<open>None\<close> is a normal return. \<^verbatim>\<open>not self.pk\<close> holds for
  \<^verbatim>\<open>None\<close> and for 0.
\<close>

datatype validation_error = ValidationError "string list"

definition not_pk :: "mailing \<Rightarrow> bool" where
  "not_pk self = (pk self = None \<or> pk self = Some 0)"

definition clean :: "datetime \<Rightarrow> mailing \<Rightarrow> validation_error option" where
  "clean now self =
    (case (start_time self, end_time self) of
       (Some s, Some e) \<Rightarrow>
         if s \<ge> e then Some (ValidationError [''end_time''])
         else if not_pk self \<and> s < now then Some (ValidationError [''start_time''])
         else None
     | _ \<Rightarrow> None)"

definition tagged :: "string \<Rightarrow> validation_error option \<Rightarrow> bool" where
  "tagged field r = (case r of None \<Rightarrow> False | Some (ValidationError fs) \<Rightarrow> field \<in> set fs)"

subsection \<open>Mailing.update_status\<close>

text \<open>
  The value of the local \<^verbatim>\<open>new_status\<close>. Comparing a datetime with \<^verbatim>\<open>None\<close>
  raises \<^verbatim>\<open>TypeError\<close>; the chained comparison reads \<^verbatim>\<open>end_time\<close> only when
  \<^verbatim>\<open>start_time <= now\<close> holds.
\<close>

definition new_status :: "datetime \<Rightarrow> mailing \<Rightarrow> py_error + mailing_status" where
  "new_status now self =
    (case start_time self of
       None \<Rightarrow> Inl TypeError
     | Some s \<Rightarrow>
         if now < s then Inr STATUS_CREATED
         else if s \<le> now then
           (case end_time self of
              None \<Rightarrow> Inl TypeError
            | Some e \<Rightarrow> if now \<le> e then Inr STATUS_STARTED else Inr STATUS_COMPLETED)
         else Inr STATUS_COMPLETED)"

text \<open>
  \<^verbatim>\<open>self.save(update_fields=['status'])\<close>: an UPDATE of the one column of the row with
  the instance's primary key. Django raises \<^verbatim>\<open>ValueError\<close> without a primary key and
  \<^verbatim>\<open>DatabaseError\<close> when no row is affected.
\<close>

definition save_update_fields_status :: "mailing \<Rightarrow> world \<Rightarrow> py_error + world" where
  "save_update_fields_status self w =
    (case pk self of
       None \<Rightarrow> Inl ValueError
     | Some k \<Rightarrow>
         (case map_of (mailings w) k of
            None \<Rightarrow> Inl DatabaseError
          | Some row \<Rightarrow>
              Inr (w\<lparr>mailings := AList.update k (row\<lparr>status := status self\<rparr>) (mailings w)\<rparr>)))"

definition update_status :: "datetime \<Rightarrow> mailing \<Rightarrow> world \<Rightarrow> py_error + (mailing \<times> world)" where
  "update_status now self w =
    (case new_status now self of
       Inl err \<Rightarrow> Inl err
     | Inr ns \<Rightarrow>
         if status self \<noteq> ns then
           (let self' = self\<lparr>status := ns\<rparr> in
            case save_update_fields_status self' w of
              Inl err \<Rightarrow> Inl err
            | Inr w' \<Rightarrow> Inr (self', w'))
         else Inr (self, w))"

subsection \<open>Mailing.can_send\<close>

definition can_send :: "datetime \<Rightarrow> mailing \<Rightarrow> py_error + bool" where
  "can_send now self =
    (case start_time self of
       None \<Rightarrow> Inl TypeError
     | Some s \<Rightarrow>
         if s \<le> now then
           (case end_time self of None \<Rightarrow> Inl TypeError | Some e \<Rightarrow> Inr (now \<le> e))
         else Inr False)"

text \<open>
  The function of line 154, the second binding of \<^verbatim>\<open>is_active\<close>; no caller in the
  repository invokes it.
\<close>

definition is_active :: "datetime \<Rightarrow> mailing \<Rightarrow> world \<Rightarrow> py_error + (bool \<times> mailing \<times> world)" where
  "is_active now self w =
    (case update_status now self w of
       Inl err \<Rightarrow> Inl err
     | Inr (self', w') \<Rightarrow> Inr (status self' = STATUS_STARTED, self', w'))"

section \<open>Mailing form (mailings/forms.py, MailingForm)\<close>

text \<open>
  \<^verbatim>\<open>self.cleaned_data\<close>, restricted to the two time fields; \<open>None\<close> is a key that is
  absent (\<^verbatim>\<open>cleaned_data.get\<close> returns \<^verbatim>\<open>None\<close>).
\<close>

record cleaned_data =
  cd_start_time :: "datetime option"
  cd_end_time :: "datetime option"

text \<open>
  The hook \<^verbatim>\<open>clean_start_time\<close>; it raises a \<^verbatim>\<open>ValidationError\<close> with a plain
  message, which the form attaches to the field \<^verbatim>\<open>start_time\<close>.
\<close>

definition clean_start_time ::
  "datetime \<Rightarrow> mailing \<Rightarrow> cleaned_data \<Rightarrow> validation_error + datetime option" where
  "clean_start_time now instance cd =
    (case cd_start_time cd of
       Some s \<Rightarrow> if not_pk instance \<and> s < now then Inl (ValidationError []) else Inr (Some s)
     | None \<Rightarrow> Inr None)"

text \<open>The hook \<^verbatim>\<open>clean\<close> of the form.\<close>

definition MailingForm_clean :: "cleaned_data \<Rightarrow> validation_error + cleaned_data" where
  "MailingForm_clean cd =
    (case (cd_start_time cd, cd_end_time cd) of
       (Some s, Some e) \<Rightarrow> if s \<ge> e then Inl (ValidationError [''end_time'']) else Inr cd
     | _ \<Rightarrow> Inr cd)"

text \<open>
  The order in which a Django model form runs these checks (\<^verbatim>\<open>form.is_valid()\<close>),
  and the names of the fields in \<^verbatim>\<open>form.errors\<close> afterwards:
  \<^enum> the hook of each field; a field whose hook raises is recorded and deleted from
    \<^verbatim>\<open>cleaned_data\<close> (\<open>drop_fields\<close>);
  \<^enum> the form's \<^verbatim>\<open>clean\<close>; the fields of its error are recorded and deleted
    likewise;
  \<^enum> the surviving values are assigned to the instance (\<open>construct_instance\<close>; a
    field that failed keeps the instance's own value) and \<^verbatim>\<open>Mailing.clean\<close> runs on
    it.
  \<open>now1\<close> is the clock reading of the hook, \<open>now2\<close> that of \<^verbatim>\<open>Mailing.clean\<close>.
\<close>

definition drop_fields :: "string list \<Rightarrow> cleaned_data \<Rightarrow> cleaned_data" where
  "drop_fields fs cd =
    \<lparr>cd_start_time = (if ''start_time'' \<in> set fs then None else cd_start_time cd),
     cd_end_time = (if ''end_time'' \<in> set fs then None else cd_end_time cd)\<rparr>"

definition construct_instance :: "cleaned_data \<Rightarrow> mailing \<Rightarrow> mailing" where
  "construct_instance cd instance =
    instance\<lparr>start_time := (case cd_start_time cd of Some s \<Rightarrow> Some s | None \<Rightarrow> start_time instance),
             end_time := (case cd_end_time cd of Some e \<Rightarrow> Some e | None \<Rightarrow> end_time instance)\<rparr>"

definition MailingForm_full_clean ::
  "datetime \<Rightarrow> datetime \<Rightarrow> mailing \<Rightarrow> cleaned_data \<Rightarrow> string list" where
  "MailingForm_full_clean now1 now2 instance cd =
    (case (case clean_start_time now1 instance cd of
             Inl err \<Rightarrow> ([''start_time''], drop_fields [''start_time''] cd)
           | Inr v \<Rightarrow> ([], cd\<lparr>cd_start_time := v\<rparr>)) of
       (errors1, cd1) \<Rightarrow>
         (case (case MailingForm_clean cd1 of
                  Inl (ValidationError fs) \<Rightarrow> (fs, drop_fields fs cd1)
                | Inr cd' \<Rightarrow> ([], cd')) of
            (errors2, cd2) \<Rightarrow>
              errors1 @ errors2 @
              (case clean now2 (construct_instance cd2 instance) of
                 Some (ValidationError fs) \<Rightarrow> fs
               | None \<Rightarrow> [])))"

section \<open>Database access\<close>

text \<open>
  \<^verbatim>\<open>get_object_or_404(Mailing, pk=pk)\<close> and \<^verbatim>\<open>Mailing.objects.get(pk=...)\<close>: a fresh
  instance holding the row's fields; its \<^verbatim>\<open>__dict__\<close> has no entry
  \<^verbatim>\<open>'is_active'\<close>.
\<close>

definition get_object :: "world \<Rightarrow> int \<Rightarrow> mailing option" where
  "get_object w k =
    map_option (\<lambda>row. row\<lparr>pk := Some k, inst_is_active := None\<rparr>) (map_of (mailings w) k)"

text \<open>
  \<^verbatim>\<open>mailing.save()\<close>: writes the fields of the instance to its row (inserting the row
  when there is none). The many-to-many relation is not a column and stays as stored.
  The views below save loaded rows only; on an insertion Django would also stamp
  \<^verbatim>\<open>created_at\<close> with the clock, which this function, having no clock, leaves at
  the instance's value.
\<close>

definition fresh_pk :: "(int \<times> mailing) list \<Rightarrow> int" where
  "fresh_pk rows = fold (\<lambda>(k, _) n. max (k + 1) n) rows 1"

definition save :: "mailing \<Rightarrow> world \<Rightarrow> world" where
  "save self w =
    (let k = (case pk self of Some k \<Rightarrow> k | None \<Rightarrow> fresh_pk (mailings w));
         stored = (case map_of (mailings w) k of Some row \<Rightarrow> recipients row | None \<Rightarrow> [])
     in w\<lparr>mailings :=
          AList.update k (self\<lparr>pk := Some k, recipients := stored, inst_is_active := None\<rparr>)
            (mailings w)\<rparr>)"

text \<open>\<^verbatim>\<open>MailingAttempt.objects.create(...)\<close>.\<close>

definition create_attempt :: "attempt \<Rightarrow> world \<Rightarrow> world" where
  "create_attempt a w = w\<lparr>attempts := attempts w @ [a]\<rparr>"

section \<open>The mail transport and the settings\<close>

text \<open>
  \<^verbatim>\<open>django.core.mail.send_mail\<close> with \<^verbatim>\<open>fail_silently=False\<close> either returns
  (\<open>None\<close>) or raises an exception \<^verbatim>\<open>e\<close> (\<open>Some (str(e))\<close>); the outcome is a
  function of the message handed over. \<^verbatim>\<open>settings.DEFAULT_FROM_EMAIL\<close> is a constant
  of the deployment.
\<close>

record env =
  send_mail :: "mail \<Rightarrow> string option"
  DEFAULT_FROM_EMAIL :: string

text \<open>
  The fixed \<^verbatim>\<open>server_response\<close> text of a successful attempt ("letter sent
  successfully"), transliterated from the Russian of the source.
\<close>

definition delivered :: string where
  "delivered = ''Pismo uspeshno otpravleno''"

definition mail_to :: "env \<Rightarrow> mailing \<Rightarrow> client \<Rightarrow> mail" where
  "mail_to ev mailing c =
    \<lparr>mail_subject = subject (message mailing), mail_message = body (message mailing),
     from_email = DEFAULT_FROM_EMAIL ev, recipient_list = [email c]\<rparr>"

text \<open>Whether the transport raises for a recipient of a mailing.\<close>

definition fails :: "env \<Rightarrow> mailing \<Rightarrow> client \<Rightarrow> bool" where
  "fails ev mailing c = (send_mail ev (mail_to ev mailing c) \<noteq> None)"

section \<open>Messages shown to the caller\<close>

text \<open>
  The texts of \<^verbatim>\<open>messages.error/warning/success\<close> (views) and of the lines written
  to \<^verbatim>\<open>self.stdout\<close> (command), one constructor per text of the source, with the
  values interpolated into it; the level is the \<^verbatim>\<open>messages\<close> function or the
  \<^verbatim>\<open>self.style\<close> used (\<open>PLAIN\<close> for an unstyled line). The view and the
  command word the refusals "outside the window" and "no recipients" alike.
\<close>

datatype level = ERROR | WARNING | SUCCESS | PLAIN

datatype notice =
    No_rights_to_send
  | Deactivated_by_manager
  | Outside_window
  | No_recipients
  | Sent_count nat
  | Failed_count nat
  | No_rights_for_action
  | Toggled bool
  | Not_found int
  | Starting int
  | Message_subject string
  | Recipient_count nat
  | Rule
  | Sent_to string
  | Error_for string string
  | Total_sent nat
  | Total_failed nat
  | Finished mailing_status

datatype target = To_login | To_home | To_mailing_list | To_mailing_detail int

datatype response =
    Redirect target "(level \<times> notice) list"
  | Http404
  | Raised py_error

section \<open>Manual send (mailings/views.py, send_mailing)\<close>

text \<open>The \<^verbatim>\<open>for client in recipients\<close> loop with its two counters.\<close>

fun send_mailing_loop ::
  "env \<Rightarrow> mailing \<Rightarrow> client list \<Rightarrow> world \<times> nat \<times> nat \<Rightarrow> world \<times> nat \<times> nat" where
  "send_mailing_loop ev mailing [] acc = acc"
| "send_mailing_loop ev mailing (c # rest) (w, success_count, failed_count) =
    (let w1 = w\<lparr>outbox := outbox w @ [mail_to ev mailing c]\<rparr> in
     case send_mail ev (mail_to ev mailing c) of
       None \<Rightarrow>
         send_mailing_loop ev mailing rest
           (create_attempt
              \<lparr>att_mailing = pk mailing, att_status = STATUS_SUCCESS,
               server_response = Some delivered, recipient_email = Some (email c)\<rparr> w1,
            success_count + 1, failed_count)
     | Some e \<Rightarrow>
         send_mailing_loop ev mailing rest
           (create_attempt
              \<lparr>att_mailing = pk mailing, att_status = STATUS_FAILED,
               server_response = Some e, recipient_email = Some (email c)\<rparr> w1,
            success_count, failed_count + 1))"

text \<open>
  \<open>request_user\<close> is \<open>None\<close> for an anonymous request, which \<^verbatim>\<open>@login_required\<close>
  sends to the login page. \<open>now1\<close> is the clock reading of \<^verbatim>\<open>can_send\<close>,
  \<open>now2\<close> the one of the \<^verbatim>\<open>update_status\<close> call after the loop. A model instance
  equals another when their primary keys do, so \<^verbatim>\<open>mailing.owner != request.user\<close>
  compares the owner's key with the user's.
\<close>

definition send_mailing ::
  "env \<Rightarrow> datetime \<Rightarrow> datetime \<Rightarrow> user option \<Rightarrow> int \<Rightarrow> world \<Rightarrow> response \<times> world" where
  "send_mailing ev now1 now2 request_user k w =
    (case request_user of
       None \<Rightarrow> (Redirect To_login [], w)
     | Some u \<Rightarrow>
     (case get_object w k of
       None \<Rightarrow> (Http404, w)
     | Some mailing \<Rightarrow>
         if owner mailing \<noteq> Some (uid u) \<and> \<not> can_view_all_mailings u then
           (Redirect To_mailing_list [(ERROR, No_rights_to_send)], w)
         else if \<not> truthy (getattr_is_active mailing) then
           (Redirect (To_mailing_detail k) [(ERROR, Deactivated_by_manager)], w)
         else
           (case can_send now1 mailing of
              Inl err \<Rightarrow> (Raised err, w)
            | Inr False \<Rightarrow> (Redirect (To_mailing_detail k) [(ERROR, Outside_window)], w)
            | Inr True \<Rightarrow>
                if recipients mailing = [] then
                  (Redirect (To_mailing_detail k) [(WARNING, No_recipients)], w)
                else
                  (case send_mailing_loop ev mailing (recipients mailing) (w, 0, 0) of
                     (w1, success_count, failed_count) \<Rightarrow>
                       (case update_status now2 mailing w1 of
                          Inl err \<Rightarrow> (Raised err, w1)
                        | Inr (mailing', w2) \<Rightarrow>
                            (Redirect (To_mailing_detail k)
                               ((if success_count > 0
                                 then [(SUCCESS, Sent_count success_count)] else []) @
                                (if failed_count > 0
                                 then [(WARNING, Failed_count failed_count)] else [])),
                             w2))))))"

section \<open>Activation toggle (mailings/views.py, toggle_mailing_active)\<close>

definition toggle_mailing_active :: "user option \<Rightarrow> int \<Rightarrow> world \<Rightarrow> response \<times> world" where
  "toggle_mailing_active request_user k w =
    (case request_user of
       None \<Rightarrow> (Redirect To_login [], w)
     | Some u \<Rightarrow>
         if \<not> can_manage_users u then (Redirect To_home [(ERROR, No_rights_for_action)], w)
         else
           (case get_object w k of
              None \<Rightarrow> (Http404, w)
            | Some mailing \<Rightarrow>
                (let mailing1 =
                       mailing\<lparr>inst_is_active := Some (\<not> truthy (getattr_is_active mailing))\<rparr>;
                     w1 = save mailing1 w;
                     action = truthy (getattr_is_active mailing1)
                 in (Redirect (To_mailing_detail k) [(SUCCESS, Toggled action)], w1))))"

section \<open>Command-line send (mailings/management/commands/send_mailings.py)\<close>

datatype result = Printed "(level \<times> notice) list" | Crashed py_error "(level \<times> notice) list"

fun handle_loop ::
  "env \<Rightarrow> mailing \<Rightarrow> client list \<Rightarrow> world \<times> (level \<times> notice) list \<times> nat \<times> nat
     \<Rightarrow> world \<times> (level \<times> notice) list \<times> nat \<times> nat" where
  "handle_loop ev mailing [] acc = acc"
| "handle_loop ev mailing (c # rest) (w, stdout, success_count, failed_count) =
    (let w1 = w\<lparr>outbox := outbox w @ [mail_to ev mailing c]\<rparr> in
     case send_mail ev (mail_to ev mailing c) of
       None \<Rightarrow>
         handle_loop ev mailing rest
           (create_attempt
              \<lparr>att_mailing = pk mailing, att_status = STATUS_SUCCESS,
               server_response = Some delivered, recipient_email = Some (email c)\<rparr> w1,
            stdout @ [(SUCCESS, Sent_to (email c))], success_count + 1, failed_count)
     | Some e \<Rightarrow>
         handle_loop ev mailing rest
           (create_attempt
              \<lparr>att_mailing = pk mailing, att_status = STATUS_FAILED,
               server_response = Some e, recipient_email = Some (email c)\<rparr> w1,
            stdout @ [(ERROR, Error_for (email c) e)], success_count, failed_count + 1))"

definition handle :: "env \<Rightarrow> datetime \<Rightarrow> datetime \<Rightarrow> int \<Rightarrow> world \<Rightarrow> result \<times> world" where
  "handle ev now1 now2 mailing_id w =
    (case get_object w mailing_id of
       None \<Rightarrow> (Printed [(ERROR, Not_found mailing_id)], w)
     | Some mailing \<Rightarrow>
         (case can_send now1 mailing of
            Inl err \<Rightarrow> (Crashed err [], w)
          | Inr False \<Rightarrow> (Printed [(ERROR, Outside_window)], w)
          | Inr True \<Rightarrow>
              if recipients mailing = [] then (Printed [(WARNING, No_recipients)], w)
              else
                (case handle_loop ev mailing (recipients mailing)
                        (w,
                         [(PLAIN, Starting mailing_id),
                          (PLAIN, Message_subject (subject (message mailing))),
                          (PLAIN, Recipient_count (length (recipients mailing))),
                          (PLAIN, Rule)],
                         0, 0) of
                   (w1, stdout, success_count, failed_count) \<Rightarrow>
                     (case update_status now2 mailing w1 of
                        Inl err \<Rightarrow> (Crashed err stdout, w1)
                      | Inr (mailing', w2) \<Rightarrow>
                          (Printed
                             (stdout @ [(PLAIN, Rule), (SUCCESS, Total_sent success_count)] @
                              (if failed_count > 0
                               then [(WARNING, Total_failed failed_count)] else []) @
                              [(SUCCESS, Finished (status mailing'))]),
                           w2)))))"

section \<open>What one round of the loop records\<close>

text \<open>
  The row the loop body creates for a recipient and the line the command prints for it:
  the two branches of the \<^verbatim>\<open>try\<close>/\<^verbatim>\<open>except\<close> statement, selected by the
  transport's outcome.
\<close>

definition attempt_for :: "env \<Rightarrow> mailing \<Rightarrow> client \<Rightarrow> attempt" where
  "attempt_for ev mailing c =
    (case send_mail ev (mail_to ev mailing c) of
       None \<Rightarrow> \<lparr>att_mailing = pk mailing, att_status = STATUS_SUCCESS,
                 server_response = Some delivered, recipient_email = Some (email c)\<rparr>
     | Some e \<Rightarrow> \<lparr>att_mailing = pk mailing, att_status = STATUS_FAILED,
                   server_response = Some e, recipient_email = Some (email c)\<rparr>)"

definition line_for :: "env \<Rightarrow> mailing \<Rightarrow> client \<Rightarrow> level \<times> notice" where
  "line_for ev mailing c =
    (case send_mail ev (mail_to ev mailing c) of
       None \<Rightarrow> (SUCCESS, Sent_to (email c))
     | Some e \<Rightarrow> (ERROR, Error_for (email c) e))"

section \<open>Concrete scenarios\<close>

text \<open>
  A mailing owned by user 7, open from 0 to 100, with two recipients; a transport that
  accepts mail for the first and raises "mailbox full" for the second; a manager.
\<close>

definition scenario_mailing :: mailing where
  "scenario_mailing =
    \<lparr>pk = Some 1, start_time = Some 0, end_time = Some 100, status = STATUS_CREATED,
     message = \<lparr>subject = ''News'', body = ''Hello''\<rparr>,
     recipients = [\<lparr>email = ''a@x.com'', full_name = ''A''\<rparr>,
                   \<lparr>email = ''b@x.com'', full_name = ''B''\<rparr>],
     created_at = 0, owner = Some 7, inst_is_active = None\<rparr>"

definition scenario_world :: world where
  "scenario_world = \<lparr>mailings = [(1, scenario_mailing)], attempts = [], outbox = []\<rparr>"

definition scenario_env :: env where
  "scenario_env =
    \<lparr>send_mail = (\<lambda>m. if recipient_list m = [''b@x.com''] then Some ''mailbox full'' else None),
     DEFAULT_FROM_EMAIL = ''noreply@x.com''\<rparr>"

definition owner_user :: user where
  "owner_user = \<lparr>uid = 7, role = ROLE_USER, is_superuser = False\<rparr>"

definition manager_user :: user where
  "manager_user = \<lparr>uid = 2, role = ROLE_MANAGER, is_superuser = False\<rparr>"

text \<open>The same mailing without recipients.\<close>

definition empty_mailing :: mailing where
  "empty_mailing = scenario_mailing\<lparr>recipients := []\<rparr>"

definition empty_world :: world where
  "empty_world = \<lparr>mailings = [(1, empty_mailing)], attempts = [], outbox = []\<rparr>"

text \<open>
  Unsaved instances under validation: one with no start time yet, one whose window is
  reversed and lies in the past of time 10.
\<close>

definition draft_mailing :: mailing where
  "draft_mailing = scenario_mailing\<lparr>pk := None, start_time := None\<rparr>"

definition reversed_mailing :: mailing where
  "reversed_mailing = scenario_mailing\<lparr>pk := None, start_time := Some 5, end_time := Some 3\<rparr>"

text \<open>The instance \<^verbatim>\<open>Mailing()\<close> a create form starts from: no key, no times.\<close>

definition fresh_instance :: mailing where
  "fresh_instance = scenario_mailing\<lparr>pk := None, start_time := None, end_time := None\<rparr>"

text \<open>A stored mailing whose window is reversed, and the table holding it.\<close>

definition stored_reversed_mailing :: mailing where
  "stored_reversed_mailing = scenario_mailing\<lparr>start_time := Some 5, end_time := Some 3\<rparr>"

definition reversed_world :: world where
  "reversed_world = \<lparr>mailings = [(1, stored_reversed_mailing)], attempts = [], outbox = []\<rparr>"

section \<open>Properties\<close>

subsection \<open>Auxiliary facts\<close>

lemma Mailing_is_active_binding:
  "map_of (class_namespace Mailing_body) ''is_active'' = Some Function"
  by (simp add: class_namespace_def Mailing_body_def)

lemma Mailing_model_fields:
  "model_fields Mailing_body =
     [''start_time'', ''end_time'', ''status'', ''message'', ''recipients'', ''created_at'', ''owner'']"
  by (simp add: model_fields_def class_namespace_def Mailing_body_def)

lemma new_status_cases:
  assumes "start_time m = Some s" and "end_time m = Some e"
  shows "new_status now m =
           Inr (if now < s then STATUS_CREATED
                else if now \<le> e then STATUS_STARTED else STATUS_COMPLETED)"
  using assms by (simp add: new_status_def)

lemma new_status_ignores_status:
  "new_status now (m\<lparr>status := st\<rparr>) = new_status now m"
  by (simp add: new_status_def split: option.splits)

lemma can_send_TrueD:
  assumes "can_send now m = Inr True"
  shows "\<exists>s e. start_time m = Some s \<and> end_time m = Some e \<and> s \<le> now \<and> now \<le> e"
  using assms by (auto simp add: can_send_def split: option.splits if_splits)

lemma update_status_succeeds:
  assumes "start_time m = Some s" and "end_time m = Some e"
    and "pk m = Some k" and "map_of (mailings w) k = Some row"
  shows "\<exists>m' w'. update_status now m w = Inr (m', w') \<and> new_status now m = Inr (status m')"
  using assms
  by (auto simp add: update_status_def new_status_cases save_update_fields_status_def Let_def)

lemma update_status_frame:
  assumes "update_status now m w = Inr (m', w')"
  shows "m'\<lparr>status := status m\<rparr> = m" and "attempts w' = attempts w" and "outbox w' = outbox w"
    and "map_of (mailings w) j = Some r \<Longrightarrow>
           \<exists>r'. map_of (mailings w') j = Some r' \<and> r'\<lparr>status := status r\<rparr> = r"
    and "map_of (mailings w) j = None \<Longrightarrow> map_of (mailings w') j = None"
  using assms
  by (auto simp add: update_status_def save_update_fields_status_def Let_def update_conv'
      split: sum.splits if_splits option.splits)

lemma update_status_idem:
  assumes "update_status now m w = Inr (m', w')"
  shows "update_status now m' w' = Inr (m', w')"
  using assms
  by (auto simp add: update_status_def new_status_ignores_status Let_def
      split: sum.splits if_splits)

subsection \<open>The loops\<close>

lemma send_mailing_loop_eq:
  "send_mailing_loop ev m cs (w, sc, fc) =
     (w\<lparr>attempts := attempts w @ map (attempt_for ev m) cs,
        outbox := outbox w @ map (mail_to ev m) cs\<rparr>,
      sc + length (filter (\<lambda>c. \<not> fails ev m c) cs),
      fc + length (filter (fails ev m) cs))"
proof (induction cs arbitrary: w sc fc)
  case Nil
  then show ?case by simp
next
  case (Cons c cs)
  show ?case
  proof (cases "send_mail ev (mail_to ev m c)")
    case None
    then show ?thesis
      by (simp add: Cons.IH create_attempt_def attempt_for_def fails_def)
  next
    case (Some e)
    then show ?thesis
      by (simp add: Cons.IH create_attempt_def attempt_for_def fails_def)
  qed
qed

lemma handle_loop_eq:
  "handle_loop ev m cs (w, out, sc, fc) =
     (w\<lparr>attempts := attempts w @ map (attempt_for ev m) cs,
        outbox := outbox w @ map (mail_to ev m) cs\<rparr>,
      out @ map (line_for ev m) cs,
      sc + length (filter (\<lambda>c. \<not> fails ev m c) cs),
      fc + length (filter (fails ev m) cs))"
proof (induction cs arbitrary: w out sc fc)
  case Nil
  then show ?case by simp
next
  case (Cons c cs)
  show ?case
  proof (cases "send_mail ev (mail_to ev m c)")
    case None
    then show ?thesis
      by (simp add: Cons.IH create_attempt_def attempt_for_def line_for_def fails_def)
  next
    case (Some e)
    then show ?thesis
      by (simp add: Cons.IH create_attempt_def attempt_for_def line_for_def fails_def)
  qed
qed

lemma count_not_fails:
  "length (filter (\<lambda>c. \<not> fails ev m c) cs) = length cs - length (filter (fails ev m) cs)"
  using sum_length_filter_compl[of "fails ev m" cs] by simp

lemma count_failed_attempts:
  "length (filter (\<lambda>a. att_status a = STATUS_FAILED) (map (attempt_for ev m) cs)) =
     length (filter (fails ev m) cs)"
  by (induction cs) (auto simp add: attempt_for_def fails_def split: option.splits)

lemma count_success_attempts:
  "length (filter (\<lambda>a. att_status a = STATUS_SUCCESS) (map (attempt_for ev m) cs)) =
     length cs - length (filter (fails ev m) cs)"
proof -
  have "length (filter (\<lambda>a. att_status a = STATUS_SUCCESS) (map (attempt_for ev m) cs)) =
          length (filter (\<lambda>c. \<not> fails ev m c) cs)"
    by (induction cs) (auto simp add: attempt_for_def fails_def split: option.splits)
  then show ?thesis by (simp add: count_not_fails)
qed

lemma scenario_loaded: "get_object scenario_world 1 = Some scenario_mailing"
  by (simp add: get_object_def scenario_world_def scenario_mailing_def)

subsection \<open>Delivery\<close>

text \<open>
  C1. A mailing with \<open>N \<ge> 1\<close> recipients, open at the time of the check, for \<open>K\<close> of
  whose recipients the transport raises. Both the manual send and the command call the
  transport once per recipient, in order, append exactly \<open>N\<close> attempts (\<open>new\<close>), of
  which \<open>K\<close> are failed and carry the text of the exception and \<open>N - K\<close> are
  successful and carry the fixed text, each with its recipient's email; the counters
  end at \<open>N - K\<close> and \<open>K\<close> and are reported so (the view leaves out a count that
  is 0, the command a failed count that is 0); and the final state is the state after
  the whole batch with \<^verbatim>\<open>update_status\<close> applied to it once, at the clock reading
  taken after the loop.
\<close>

theorem execute_records_every_recipient:
  assumes loaded: "get_object w k = Some mailing"
    and access: "owner mailing = Some (uid u) \<or> can_view_all_mailings u"
    and window: "can_send now1 mailing = Inr True"
    and N: "N = length (recipients mailing)" and pos: "N \<ge> 1"
    and K: "K = length (filter (fails ev mailing) (recipients mailing))"
  shows "\<exists>new m' w'.
      send_mailing ev now1 now2 (Some u) k w =
        (Redirect (To_mailing_detail k)
           ((if N - K > 0 then [(SUCCESS, Sent_count (N - K))] else []) @
            (if K > 0 then [(WARNING, Failed_count K)] else [])), w') \<and>
      handle ev now1 now2 k w =
        (Printed
           ([(PLAIN, Starting k), (PLAIN, Message_subject (subject (message mailing))),
             (PLAIN, Recipient_count N), (PLAIN, Rule)] @
            map (line_for ev mailing) (recipients mailing) @
            [(PLAIN, Rule), (SUCCESS, Total_sent (N - K))] @
            (if K > 0 then [(WARNING, Total_failed K)] else []) @
            [(SUCCESS, Finished (status m'))]), w') \<and>
      new = map (attempt_for ev mailing) (recipients mailing) \<and>
      send_mailing_loop ev mailing (recipients mailing) (w, 0, 0) =
        (w\<lparr>attempts := attempts w @ new,
           outbox := outbox w @ map (mail_to ev mailing) (recipients mailing)\<rparr>, N - K, K) \<and>
      snd (snd (handle_loop ev mailing (recipients mailing) (w, [], 0, 0))) = (N - K, K) \<and>
      attempts w' = attempts w @ new \<and>
      length new = N \<and> K \<le> N \<and>
      length (filter (\<lambda>a. att_status a = STATUS_FAILED) new) = K \<and>
      length (filter (\<lambda>a. att_status a = STATUS_SUCCESS) new) = N - K \<and>
      (\<forall>i<N. recipient_email (new ! i) = Some (email (recipients mailing ! i)) \<and>
         (case send_mail ev (mail_to ev mailing (recipients mailing ! i)) of
            None \<Rightarrow> att_status (new ! i) = STATUS_SUCCESS \<and>
                     server_response (new ! i) = Some delivered
          | Some d \<Rightarrow> att_status (new ! i) = STATUS_FAILED \<and>
                      server_response (new ! i) = Some d)) \<and>
      outbox w' = outbox w @ map (mail_to ev mailing) (recipients mailing) \<and>
      update_status now2 mailing
        (w\<lparr>attempts := attempts w @ new,
           outbox := outbox w @ map (mail_to ev mailing) (recipients mailing)\<rparr>) = Inr (m', w') \<and>
      new_status now2 mailing = Inr (status m')"
proof -
  let ?cs = "recipients mailing"
  let ?new = "map (attempt_for ev mailing) ?cs"
  let ?w1 = "w\<lparr>attempts := attempts w @ ?new, outbox := outbox w @ map (mail_to ev mailing) ?cs\<rparr>"
  from loaded obtain row where row: "map_of (mailings w) k = Some row" and pk: "pk mailing = Some k"
    and dict: "inst_is_active mailing = None"
    by (auto simp add: get_object_def)
  from window obtain s e where se: "start_time mailing = Some s" "end_time mailing = Some e"
    using can_send_TrueD by blast
  have row1: "map_of (mailings ?w1) k = Some row" using row by simp
  from update_status_succeeds[OF se pk row1, of now2]
  obtain m' w' where upd: "update_status now2 mailing ?w1 = Inr (m', w')"
    and ns: "new_status now2 mailing = Inr (status m')" by blast
  have frame: "attempts w' = attempts ?w1" "outbox w' = outbox ?w1"
    using update_status_frame(2,3)[OF upd] by simp_all
  have ne: "?cs \<noteq> []" using N pos by auto
  have active: "truthy (getattr_is_active mailing)" using dict by (simp add: getattr_is_active_def)
  have cnt: "length (filter (\<lambda>c. \<not> fails ev mailing c) ?cs) = N - K"
    using count_not_fails[of ev mailing ?cs] N K by simp
  have web: "send_mailing ev now1 now2 (Some u) k w =
        (Redirect (To_mailing_detail k)
           ((if N - K > 0 then [(SUCCESS, Sent_count (N - K))] else []) @
            (if K > 0 then [(WARNING, Failed_count K)] else [])), w')"
    using loaded access window ne active upd cnt K
    by (simp add: send_mailing_def send_mailing_loop_eq)
  have cli: "handle ev now1 now2 k w =
        (Printed
           ([(PLAIN, Starting k), (PLAIN, Message_subject (subject (message mailing))),
             (PLAIN, Recipient_count N), (PLAIN, Rule)] @
            map (line_for ev mailing) (recipients mailing) @
            [(PLAIN, Rule), (SUCCESS, Total_sent (N - K))] @
            (if K > 0 then [(WARNING, Total_failed K)] else []) @
            [(SUCCESS, Finished (status m'))]), w')"
    using loaded window ne upd cnt K N
    by (simp add: handle_def handle_loop_eq)
  have KN: "K \<le> N" using N K by simp
  have each: "\<forall>i<N. recipient_email (?new ! i) = Some (email (?cs ! i)) \<and>
         (case send_mail ev (mail_to ev mailing (?cs ! i)) of
            None \<Rightarrow> att_status (?new ! i) = STATUS_SUCCESS \<and>
                     server_response (?new ! i) = Some delivered
          | Some d \<Rightarrow> att_status (?new ! i) = STATUS_FAILED \<and>
                      server_response (?new ! i) = Some d)"
    using N by (simp add: attempt_for_def split: option.splits)
  have loop: "send_mailing_loop ev mailing ?cs (w, 0, 0) = (?w1, N - K, K)"
    using cnt K by (simp add: send_mailing_loop_eq)
  have loop': "snd (snd (handle_loop ev mailing ?cs (w, [], 0, 0))) = (N - K, K)"
    using cnt K by (simp add: handle_loop_eq)
  show ?thesis
    using web cli upd ns frame KN N K each loop loop'
      count_failed_attempts[of ev mailing ?cs] count_success_attempts[of ev mailing ?cs]
    by (intro exI[of _ ?new] exI[of _ m'] exI[of _ w']) simp
qed

theorem execute_records_every_recipient_witness:
  "get_object scenario_world 1 = Some scenario_mailing \<and>
   (owner scenario_mailing = Some (uid owner_user) \<or> can_view_all_mailings owner_user) \<and>
   can_send 50 scenario_mailing = Inr True \<and>
   (2::nat) = length (recipients scenario_mailing) \<and> (2::nat) \<ge> 1 \<and>
   (1::nat) = length (filter (fails scenario_env scenario_mailing) (recipients scenario_mailing)) \<and>
   (\<exists>w'. send_mailing scenario_env 50 60 (Some owner_user) 1 scenario_world =
            (Redirect (To_mailing_detail 1)
               [(SUCCESS, Sent_count 1), (WARNING, Failed_count 1)], w') \<and>
          attempts w' =
            [\<lparr>att_mailing = Some 1, att_status = STATUS_SUCCESS,
              server_response = Some delivered, recipient_email = Some ''a@x.com''\<rparr>,
             \<lparr>att_mailing = Some 1, att_status = STATUS_FAILED,
              server_response = Some ''mailbox full'', recipient_email = Some ''b@x.com''\<rparr>] \<and>
          map_option status (get_object w' 1) = Some STATUS_STARTED)"
proof -
  have h2: "owner scenario_mailing = Some (uid owner_user) \<or> can_view_all_mailings owner_user"
    by (simp add: scenario_mailing_def owner_user_def)
  have h3: "can_send 50 scenario_mailing = Inr True"
    by (simp add: can_send_def scenario_mailing_def)
  have h4: "(2::nat) = length (recipients scenario_mailing)" by (simp add: scenario_mailing_def)
  have h5: "(2::nat) \<ge> 1" by simp
  have h6: "(1::nat) = length (filter (fails scenario_env scenario_mailing) (recipients scenario_mailing))"
    by (simp add: fails_def mail_to_def scenario_env_def scenario_mailing_def)
  have a: "map (attempt_for scenario_env scenario_mailing) (recipients scenario_mailing) =
            [\<lparr>att_mailing = Some 1, att_status = STATUS_SUCCESS,
              server_response = Some delivered, recipient_email = Some ''a@x.com''\<rparr>,
             \<lparr>att_mailing = Some 1, att_status = STATUS_FAILED,
              server_response = Some ''mailbox full'', recipient_email = Some ''b@x.com''\<rparr>]"
    by (simp add: attempt_for_def mail_to_def scenario_env_def scenario_mailing_def)
  from execute_records_every_recipient[OF scenario_loaded h2 h3 h4 h5 h6, of 60]
  obtain new m' w' where
    web: "send_mailing scenario_env 50 60 (Some owner_user) 1 scenario_world =
            (Redirect (To_mailing_detail 1)
               ((if (2::nat) - 1 > 0 then [(SUCCESS, Sent_count (2 - 1))] else []) @
                (if (1::nat) > 0 then [(WARNING, Failed_count 1)] else [])), w')"
    and new: "new = map (attempt_for scenario_env scenario_mailing) (recipients scenario_mailing)"
    and att: "attempts w' = attempts scenario_world @ new"
    and upd: "update_status 60 scenario_mailing
        (scenario_world\<lparr>attempts := attempts scenario_world @ new,
           outbox := outbox scenario_world @ map (mail_to scenario_env scenario_mailing) (recipients scenario_mailing)\<rparr>) = Inr (m', w')"
    by blast
  have st: "map_option status (get_object w' 1) = Some STATUS_STARTED"
    using upd
    by (auto simp add: update_status_def new_status_def save_update_fields_status_def Let_def
        get_object_def scenario_world_def scenario_mailing_def split: if_splits)
  have web': "send_mailing scenario_env 50 60 (Some owner_user) 1 scenario_world =
            (Redirect (To_mailing_detail 1)
               [(SUCCESS, Sent_count 1), (WARNING, Failed_count 1)], w')"
    using web by simp
  have att': "attempts w' =
            [\<lparr>att_mailing = Some 1, att_status = STATUS_SUCCESS,
              server_response = Some delivered, recipient_email = Some ''a@x.com''\<rparr>,
             \<lparr>att_mailing = Some 1, att_status = STATUS_FAILED,
              server_response = Some ''mailbox full'', recipient_email = Some ''b@x.com''\<rparr>]"
    using att new a by (simp add: scenario_world_def)
  show ?thesis
    using scenario_loaded h2 h3 h4 h5 h6 web' att' st by blast
qed

text \<open>
  C8. A mailing without recipients: neither entry point calls the transport or creates
  an attempt (the state is unchanged), and once the earlier checks have passed the
  answer is the warning "no recipients", not one of the error notices.
\<close>

theorem no_recipients_nothing_to_do:
  assumes loaded: "get_object w k = Some mailing" and none: "recipients mailing = []"
  shows "snd (send_mailing ev now1 now2 request_user k w) = w \<and>
         snd (handle ev now1 now2 k w) = w \<and>
         (can_send now1 mailing = Inr True \<longrightarrow>
            handle ev now1 now2 k w = (Printed [(WARNING, No_recipients)], w)) \<and>
         (can_send now1 mailing = Inr True \<and>
          (owner mailing = Some (uid u) \<or> can_view_all_mailings u) \<longrightarrow>
            send_mailing ev now1 now2 (Some u) k w =
              (Redirect (To_mailing_detail k) [(WARNING, No_recipients)], w))"
proof -
  have dict: "inst_is_active mailing = None" using loaded by (auto simp add: get_object_def)
  have active: "truthy (getattr_is_active mailing)" using dict by (simp add: getattr_is_active_def)
  have a: "snd (send_mailing ev now1 now2 request_user k w) = w"
    using loaded none
    by (auto simp add: send_mailing_def split: option.splits sum.splits bool.splits)
  have b: "snd (handle ev now1 now2 k w) = w"
    using loaded none
    by (auto simp add: handle_def split: option.splits sum.splits bool.splits)
  show ?thesis
    using a b loaded none active
    by (auto simp add: send_mailing_def handle_def)
qed

theorem no_recipients_nothing_to_do_witness:
  "get_object empty_world 1 = Some empty_mailing \<and> recipients empty_mailing = [] \<and>
   can_send 50 empty_mailing = Inr True \<and>
   (owner empty_mailing = Some (uid owner_user) \<or> can_view_all_mailings owner_user) \<and>
   send_mailing scenario_env 50 60 (Some owner_user) 1 empty_world =
     (Redirect (To_mailing_detail 1) [(WARNING, No_recipients)], empty_world) \<and>
   handle scenario_env 50 60 1 empty_world = (Printed [(WARNING, No_recipients)], empty_world) \<and>
   attempts empty_world = [] \<and> outbox empty_world = []"
proof -
  have h1: "get_object empty_world 1 = Some empty_mailing"
    by (simp add: get_object_def empty_world_def empty_mailing_def scenario_mailing_def)
  have h2: "recipients empty_mailing = []" by (simp add: empty_mailing_def)
  have h3: "can_send 50 empty_mailing = Inr True"
    by (simp add: can_send_def empty_mailing_def scenario_mailing_def)
  have h4: "owner empty_mailing = Some (uid owner_user) \<or> can_view_all_mailings owner_user"
    by (simp add: empty_mailing_def scenario_mailing_def owner_user_def)
  from no_recipients_nothing_to_do[OF h1 h2, of scenario_env 50 60 "Some owner_user" owner_user]
    h1 h2 h3 h4
  show ?thesis by (simp add: empty_world_def)
qed

subsection \<open>Status and the sending window\<close>

text \<open>
  C2. For a stored mailing with both bounds, \<^verbatim>\<open>update_status\<close> returns, and the
  status it leaves (on the instance and in the row) is Created exactly when
  \<open>now < start_time\<close>, Started exactly when \<open>start_time \<le> now \<le> end_time\<close>, both
  bounds included, and, for a window with \<open>start_time \<le> end_time\<close>, Completed exactly
  when \<open>end_time < now\<close>.
\<close>

theorem update_status_by_time:
  assumes "get_object w k = Some m" and "start_time m = Some s" and "end_time m = Some e"
  shows "\<exists>m' w'. update_status now m w = Inr (m', w') \<and>
           (status m' = STATUS_CREATED \<longleftrightarrow> now < s) \<and>
           (status m' = STATUS_STARTED \<longleftrightarrow> s \<le> now \<and> now \<le> e) \<and>
           (s \<le> e \<longrightarrow> (status m' = STATUS_COMPLETED \<longleftrightarrow> e < now)) \<and>
           map_option status (get_object w' k) = Some (status m')"
proof -
  from assms(1) obtain row where row: "map_of (mailings w) k = Some row"
    and m: "m = row\<lparr>pk := Some k, inst_is_active := None\<rparr>"
    by (auto simp add: get_object_def)
  have pk: "pk m = Some k" using m by simp
  have st: "status row = status m" using m by simp
  show ?thesis
    using assms(2,3) row pk st
    by (auto simp add: update_status_def new_status_cases save_update_fields_status_def
        get_object_def Let_def update_conv')
qed

theorem update_status_by_time_witness:
  "get_object scenario_world 1 = Some scenario_mailing \<and>
   start_time scenario_mailing = Some 0 \<and> end_time scenario_mailing = Some 100 \<and>
   (0::int) \<le> 100 \<and>
   (\<exists>m' w'. update_status 100 scenario_mailing scenario_world = Inr (m', w') \<and>
        status m' = STATUS_STARTED \<and> status m' \<noteq> STATUS_COMPLETED \<and>
        map_option status (get_object w' 1) = Some STATUS_STARTED)"
proof -
  have h1: "get_object scenario_world 1 = Some scenario_mailing"
    by (simp add: get_object_def scenario_world_def scenario_mailing_def)
  have h2: "start_time scenario_mailing = Some 0" by (simp add: scenario_mailing_def)
  have h3: "end_time scenario_mailing = Some 100" by (simp add: scenario_mailing_def)
  from update_status_by_time[OF h1 h2 h3, of 100] h1 h2 h3 show ?thesis by auto
qed

text \<open>
  C3. \<^verbatim>\<open>can_send\<close> is the test \<open>start_time \<le> now \<le> end_time\<close>, whatever the stored
  status and whatever \<^verbatim>\<open>is_active\<close> is on the instance; in particular it holds
  inside the window for a mailing whose stored status is still Completed.
\<close>

theorem can_send_window:
  assumes "start_time m = Some s" and "end_time m = Some e"
  shows "can_send now m = Inr (s \<le> now \<and> now \<le> e) \<and>
         can_send now (m\<lparr>status := st, inst_is_active := ia\<rparr>) = Inr (s \<le> now \<and> now \<le> e) \<and>
         (s \<le> now \<and> now \<le> e \<longrightarrow> can_send now (m\<lparr>status := STATUS_COMPLETED\<rparr>) = Inr True)"
  using assms by (simp add: can_send_def)

theorem can_send_window_witness:
  "start_time scenario_mailing = Some 0 \<and> end_time scenario_mailing = Some 100 \<and>
   (0::int) \<le> 100 \<and> (100::int) \<le> 100 \<and>
   can_send 100 (scenario_mailing\<lparr>status := STATUS_COMPLETED\<rparr>) = Inr True \<and>
   can_send 100 (scenario_mailing\<lparr>status := STATUS_COMPLETED, inst_is_active := Some False\<rparr>) = Inr True \<and>
   can_send 101 scenario_mailing = Inr False"
proof -
  have h2: "start_time scenario_mailing = Some 0" by (simp add: scenario_mailing_def)
  have h3: "end_time scenario_mailing = Some 100" by (simp add: scenario_mailing_def)
  from can_send_window[where now = 100 and st = STATUS_COMPLETED and ia = "Some False", OF h2 h3]
    can_send_window[where now = 101 and st = STATUS_COMPLETED and ia = "Some False", OF h2 h3] h2 h3
  show ?thesis by simp
qed

text \<open>
  C9. \<^verbatim>\<open>update_status\<close> on a stored mailing with both bounds: when the computed
  status is the instance's, instance and database are returned as they were; otherwise
  the instance changes in \<open>status\<close> only and the database in the \<open>status\<close> of that
  one row only. In both cases every row keeps all its other fields, no row appears or
  disappears, attempts and sent mail are untouched, and a second call at the same time
  changes nothing. Validation plays no part: the statement holds for every mailing, also
  one that \<^verbatim>\<open>clean\<close> rejects.
\<close>

theorem update_status_writes_status_only:
  assumes "start_time m = Some s" and "end_time m = Some e"
    and "pk m = Some k" and "map_of (mailings w) k = Some row"
  shows "\<exists>m' w'. update_status now m w = Inr (m', w') \<and>
           new_status now m = Inr (status m') \<and>
           (status m' = status m \<longrightarrow> m' = m \<and> w' = w) \<and>
           (status m' \<noteq> status m \<longrightarrow>
              m' = m\<lparr>status := status m'\<rparr> \<and>
              w' = w\<lparr>mailings := AList.update k (row\<lparr>status := status m'\<rparr>) (mailings w)\<rparr>) \<and>
           m'\<lparr>status := status m\<rparr> = m \<and>
           attempts w' = attempts w \<and> outbox w' = outbox w \<and>
           (\<forall>j r. map_of (mailings w) j = Some r \<longrightarrow>
              (\<exists>r'. map_of (mailings w') j = Some r' \<and> r'\<lparr>status := status r\<rparr> = r)) \<and>
           (\<forall>j. map_of (mailings w) j = None \<longrightarrow> map_of (mailings w') j = None) \<and>
           update_status now m' w' = Inr (m', w')"
proof -
  from update_status_succeeds[OF assms, of now]
  obtain m' w' where upd: "update_status now m w = Inr (m', w')"
    and ns: "new_status now m = Inr (status m')" by blast
  have same: "status m' = status m \<longrightarrow> m' = m \<and> w' = w"
    using upd ns by (auto simp add: update_status_def Let_def split: sum.splits if_splits)
  have diff: "status m' \<noteq> status m \<longrightarrow>
              m' = m\<lparr>status := status m'\<rparr> \<and>
              w' = w\<lparr>mailings := AList.update k (row\<lparr>status := status m'\<rparr>) (mailings w)\<rparr>"
    using upd ns assms(3,4)
    by (auto simp add: update_status_def save_update_fields_status_def Let_def
        split: sum.splits if_splits)
  show ?thesis
    using upd ns same diff update_status_frame[OF upd] update_status_idem[OF upd]
    by (intro exI[of _ m'] exI[of _ w']) blast
qed

theorem update_status_writes_status_only_witness:
  "start_time stored_reversed_mailing = Some 5 \<and> end_time stored_reversed_mailing = Some 3 \<and>
   pk stored_reversed_mailing = Some 1 \<and>
   map_of (mailings reversed_world) 1 = Some stored_reversed_mailing \<and>
   clean 10 stored_reversed_mailing = Some (ValidationError [''end_time'']) \<and>
   update_status 10 stored_reversed_mailing reversed_world =
     Inr (stored_reversed_mailing\<lparr>status := STATUS_COMPLETED\<rparr>,
          reversed_world\<lparr>mailings := [(1, stored_reversed_mailing\<lparr>status := STATUS_COMPLETED\<rparr>)]\<rparr>) \<and>
   update_status 10 (stored_reversed_mailing\<lparr>status := STATUS_COMPLETED\<rparr>)
          (reversed_world\<lparr>mailings := [(1, stored_reversed_mailing\<lparr>status := STATUS_COMPLETED\<rparr>)]\<rparr>) =
     Inr (stored_reversed_mailing\<lparr>status := STATUS_COMPLETED\<rparr>,
          reversed_world\<lparr>mailings := [(1, stored_reversed_mailing\<lparr>status := STATUS_COMPLETED\<rparr>)]\<rparr>)"
proof -
  have h1: "start_time stored_reversed_mailing = Some 5"
    and h2: "end_time stored_reversed_mailing = Some 3"
    and h3: "pk stored_reversed_mailing = Some 1"
    by (simp_all add: stored_reversed_mailing_def scenario_mailing_def)
  have h4: "map_of (mailings reversed_world) 1 = Some stored_reversed_mailing"
    by (simp add: reversed_world_def)
  have ns: "new_status 10 stored_reversed_mailing = Inr STATUS_COMPLETED"
    by (simp add: new_status_cases[OF h1 h2])
  have st: "status stored_reversed_mailing = STATUS_CREATED"
    by (simp add: stored_reversed_mailing_def scenario_mailing_def)
  have cl: "clean 10 stored_reversed_mailing = Some (ValidationError [''end_time''])"
    by (simp add: clean_def h1 h2)
  from update_status_writes_status_only[OF h1 h2 h3 h4, of 10]
  obtain m' w' where upd: "update_status 10 stored_reversed_mailing reversed_world = Inr (m', w')"
    and ns': "new_status 10 stored_reversed_mailing = Inr (status m')"
    and diff: "status m' \<noteq> status stored_reversed_mailing \<longrightarrow>
              m' = stored_reversed_mailing\<lparr>status := status m'\<rparr> \<and>
              w' = reversed_world\<lparr>mailings := AList.update 1 (stored_reversed_mailing\<lparr>status := status m'\<rparr>) (mailings reversed_world)\<rparr>"
    and idem: "update_status 10 m' w' = Inr (m', w')"
    by blast
  from ns ns' have s': "status m' = STATUS_COMPLETED" by simp
  with diff st have m': "m' = stored_reversed_mailing\<lparr>status := STATUS_COMPLETED\<rparr>"
    and w': "w' = reversed_world\<lparr>mailings := AList.update 1 (stored_reversed_mailing\<lparr>status := STATUS_COMPLETED\<rparr>) (mailings reversed_world)\<rparr>"
    by simp_all
  have w'': "w' = reversed_world\<lparr>mailings := [(1, stored_reversed_mailing\<lparr>status := STATUS_COMPLETED\<rparr>)]\<rparr>"
    using w' by (simp add: reversed_world_def)
  show ?thesis using h1 h2 h3 h4 cl upd idem m' w'' by simp
qed

subsection \<open>Validation\<close>

text \<open>
  C10. When \<^verbatim>\<open>start_time\<close> or \<^verbatim>\<open>end_time\<close> is \<^verbatim>\<open>None\<close>, \<^verbatim>\<open>Mailing.clean\<close>
  makes neither check and returns normally.
\<close>

theorem clean_skipped_without_bounds:
  "start_time m = None \<or> end_time m = None \<Longrightarrow> clean now m = None"
  by (auto simp add: clean_def split: option.splits)

theorem clean_skipped_without_bounds_witness:
  "(start_time draft_mailing = None \<or> end_time draft_mailing = None) \<and>
   not_pk draft_mailing \<and> clean 10 draft_mailing = None"
proof -
  have h: "start_time draft_mailing = None \<or> end_time draft_mailing = None"
    by (simp add: draft_mailing_def)
  from clean_skipped_without_bounds[OF h, of 10] h show ?thesis
    by (simp add: not_pk_def draft_mailing_def)
qed

text \<open>Facts about the form: what \<open>construct_instance\<close> leaves, and the fields reported.\<close>

lemma not_pk_construct_instance:
  "not_pk (construct_instance cd inst) = not_pk inst"
  by (simp add: not_pk_def construct_instance_def)

lemma times_construct_instance:
  "start_time (construct_instance cd inst) =
     (case cd_start_time cd of Some s \<Rightarrow> Some s | None \<Rightarrow> start_time inst)"
  "end_time (construct_instance cd inst) =
     (case cd_end_time cd of Some e \<Rightarrow> Some e | None \<Rightarrow> end_time inst)"
  by (simp_all add: construct_instance_def)

lemma clean_construct_instance:
  "clean now (construct_instance cd inst) =
    (case (start_time (construct_instance cd inst), end_time (construct_instance cd inst)) of
       (Some s, Some e) \<Rightarrow>
         if s \<ge> e then Some (ValidationError [''end_time''])
         else if not_pk inst \<and> s < now then Some (ValidationError [''start_time''])
         else None
     | _ \<Rightarrow> None)"
  by (auto simp add: clean_def not_pk_construct_instance split: option.splits)

lemma form_new_past:
  assumes "not_pk inst" "start_time inst = None" "s < now1"
  shows "MailingForm_full_clean now1 now2 inst \<lparr>cd_start_time = Some s, cd_end_time = Some e\<rparr> = [''start_time'']"
  using assms
  by (simp add: MailingForm_full_clean_def clean_start_time_def MailingForm_clean_def
      drop_fields_def clean_construct_instance times_construct_instance)

lemma form_new_reversed:
  assumes "not_pk inst" "end_time inst = None" "\<not> s < now1" "s \<ge> e"
  shows "MailingForm_full_clean now1 now2 inst \<lparr>cd_start_time = Some s, cd_end_time = Some e\<rparr> = [''end_time'']"
  using assms
  by (simp add: MailingForm_full_clean_def clean_start_time_def MailingForm_clean_def
      drop_fields_def clean_construct_instance times_construct_instance)

lemma form_proper:
  assumes "s < e" "\<not> (not_pk inst \<and> s < now1)"
  shows "MailingForm_full_clean now1 now2 inst \<lparr>cd_start_time = Some s, cd_end_time = Some e\<rparr> =
           (if not_pk inst \<and> s < now2 then [''start_time''] else [])"
  using assms
  by (auto simp add: MailingForm_full_clean_def clean_start_time_def MailingForm_clean_def
      drop_fields_def clean_construct_instance times_construct_instance)

lemma form_existing_reversed:
  assumes "\<not> not_pk inst" "s \<ge> e"
  shows "set (MailingForm_full_clean now1 now2 inst \<lparr>cd_start_time = Some s, cd_end_time = Some e\<rparr>) = {''end_time''}"
  using assms
  by (auto simp add: MailingForm_full_clean_def clean_start_time_def MailingForm_clean_def
      drop_fields_def clean_construct_instance times_construct_instance split: option.splits)

lemma form_reversed:
  assumes "not_pk inst \<longrightarrow> start_time inst = None \<and> end_time inst = None"
    and a: "\<not> (not_pk inst \<and> s < n1)" and b: "s \<ge> e"
  shows "set (MailingForm_full_clean n1 n2 inst \<lparr>cd_start_time = Some s, cd_end_time = Some e\<rparr>) = {''end_time''}"
proof (cases "not_pk inst")
  case True
  then have "MailingForm_full_clean n1 n2 inst \<lparr>cd_start_time = Some s, cd_end_time = Some e\<rparr> = [''end_time'']"
    using assms form_new_reversed[of inst s n1 e n2] by simp
  then show ?thesis by simp
next
  case False
  then show ?thesis using b form_existing_reversed by blast
qed

lemma form_fields:
  assumes fresh: "not_pk inst \<longrightarrow> start_time inst = None \<and> end_time inst = None"
  shows "set (MailingForm_full_clean n1 n2 inst \<lparr>cd_start_time = Some s, cd_end_time = Some e\<rparr>) =
     (if not_pk inst \<and> s < n1 then {''start_time''}
      else if s < e then (if not_pk inst \<and> s < n2 then {''start_time''} else {})
      else {''end_time''})"
proof (cases "not_pk inst \<and> s < n1")
  case True
  then show ?thesis using fresh form_new_past[of inst s n1 n2 e] by simp
next
  case False
  show ?thesis
  proof (cases "s < e")
    case True
    then show ?thesis using False form_proper[of s e inst n1 n2] by simp
  next
    case ge: False
    then have "e \<le> s" by simp
    from form_reversed[OF fresh False this] show ?thesis using False ge by simp
  qed
qed

text \<open>
  C7, as the code has it, for start and end times \<open>s\<close> and \<open>e\<close> that are both
  present: on a mailing \<open>m\<close> carrying them for \<^verbatim>\<open>Mailing.clean\<close>, and submitted to
  the form of an instance \<open>inst\<close> (a new instance being a blank \<^verbatim>\<open>Mailing()\<close>).
  Either validation fails exactly when \<open>s \<ge> e\<close> or the instance is new and
  \<open>s < now\<close>; \<^verbatim>\<open>end_time\<close> is reported only if \<open>s \<ge> e\<close>, \<^verbatim>\<open>start_time\<close> only
  if the instance is new and \<open>s < now\<close>. Each stops at its first failed check, so the
  two fields are never reported together: when both violations hold,
  \<^verbatim>\<open>Mailing.clean\<close> reports \<^verbatim>\<open>end_time\<close> and the form reports \<^verbatim>\<open>start_time\<close>.
  An existing mailing with a proper window passes both, wherever its start lies.
\<close>

theorem validation_reports_one_field:
  assumes "start_time m = Some s" and "end_time m = Some e"
    and fresh: "not_pk inst \<longrightarrow> start_time inst = None \<and> end_time inst = None"
  shows "(clean now m \<noteq> None \<longleftrightarrow> s \<ge> e \<or> (not_pk m \<and> s < now)) \<and>
         (tagged ''end_time'' (clean now m) \<longleftrightarrow> s \<ge> e) \<and>
         (tagged ''start_time'' (clean now m) \<longleftrightarrow> s < e \<and> not_pk m \<and> s < now) \<and>
         \<not> (tagged ''end_time'' (clean now m) \<and> tagged ''start_time'' (clean now m)) \<and>
         (\<not> not_pk m \<and> s < e \<longrightarrow> clean now m = None) \<and>
         (MailingForm_full_clean now now inst \<lparr>cd_start_time = Some s, cd_end_time = Some e\<rparr> \<noteq> []
            \<longleftrightarrow> s \<ge> e \<or> (not_pk inst \<and> s < now)) \<and>
         (''start_time'' \<in> set (MailingForm_full_clean now now inst
              \<lparr>cd_start_time = Some s, cd_end_time = Some e\<rparr>) \<longleftrightarrow> not_pk inst \<and> s < now) \<and>
         (''end_time'' \<in> set (MailingForm_full_clean now now inst
              \<lparr>cd_start_time = Some s, cd_end_time = Some e\<rparr>)
            \<longleftrightarrow> s \<ge> e \<and> \<not> (not_pk inst \<and> s < now)) \<and>
         \<not> (''start_time'' \<in> set (MailingForm_full_clean now1 now2 inst
                \<lparr>cd_start_time = Some s, cd_end_time = Some e\<rparr>) \<and>
            ''end_time'' \<in> set (MailingForm_full_clean now1 now2 inst
                \<lparr>cd_start_time = Some s, cd_end_time = Some e\<rparr>)) \<and>
         (\<not> not_pk inst \<and> s < e \<longrightarrow>
            MailingForm_full_clean now1 now2 inst \<lparr>cd_start_time = Some s, cd_end_time = Some e\<rparr> = [])"
proof -
  have m1: "clean now m \<noteq> None \<longleftrightarrow> s \<ge> e \<or> (not_pk m \<and> s < now)"
    using assms(1,2) by (auto simp add: clean_def)
  have m2: "tagged ''end_time'' (clean now m) \<longleftrightarrow> s \<ge> e"
    using assms(1,2) by (auto simp add: clean_def tagged_def)
  have m3: "tagged ''start_time'' (clean now m) \<longleftrightarrow> s < e \<and> not_pk m \<and> s < now"
    using assms(1,2) by (auto simp add: clean_def tagged_def)
  have m4: "\<not> (tagged ''end_time'' (clean now m) \<and> tagged ''start_time'' (clean now m))"
    using m2 m3 by simp
  have m5: "\<not> not_pk m \<and> s < e \<longrightarrow> clean now m = None"
    using m1 by auto
  note one = form_fields[OF fresh, of now now s e]
  note two = form_fields[OF fresh, of now1 now2 s e]
  have f1: "MailingForm_full_clean now now inst \<lparr>cd_start_time = Some s, cd_end_time = Some e\<rparr> \<noteq> []
            \<longleftrightarrow> s \<ge> e \<or> (not_pk inst \<and> s < now)"
    unfolding set_empty[symmetric] one by auto
  have f2: "''start_time'' \<in> set (MailingForm_full_clean now now inst
              \<lparr>cd_start_time = Some s, cd_end_time = Some e\<rparr>) \<longleftrightarrow> not_pk inst \<and> s < now"
    unfolding one by simp
  have f3: "''end_time'' \<in> set (MailingForm_full_clean now now inst
              \<lparr>cd_start_time = Some s, cd_end_time = Some e\<rparr>)
            \<longleftrightarrow> s \<ge> e \<and> \<not> (not_pk inst \<and> s < now)"
    unfolding one by auto
  have f4: "\<not> (''start_time'' \<in> set (MailingForm_full_clean now1 now2 inst
                \<lparr>cd_start_time = Some s, cd_end_time = Some e\<rparr>) \<and>
            ''end_time'' \<in> set (MailingForm_full_clean now1 now2 inst
                \<lparr>cd_start_time = Some s, cd_end_time = Some e\<rparr>))"
    unfolding two by simp
  have f5: "\<not> not_pk inst \<and> s < e \<longrightarrow>
            MailingForm_full_clean now1 now2 inst \<lparr>cd_start_time = Some s, cd_end_time = Some e\<rparr> = []"
    unfolding set_empty[symmetric] two by simp
  from m1 m2 m3 m4 m5 f1 f2 f3 f4 f5 show ?thesis by (intro conjI)
qed

theorem validation_reports_one_field_witness:
  "start_time scenario_mailing = Some 0 \<and> end_time scenario_mailing = Some 100 \<and>
   not_pk fresh_instance \<and>
   start_time fresh_instance = None \<and> end_time fresh_instance = None \<and>
   \<not> not_pk scenario_mailing \<and> (0::int) < 100 \<and> (0::int) < 50 \<and>
   clean 50 scenario_mailing = None \<and>
   set (MailingForm_full_clean 50 50 fresh_instance
     \<lparr>cd_start_time = Some 0, cd_end_time = Some 100\<rparr>) = {''start_time''}"
proof -
  have h2: "start_time scenario_mailing = Some 0" by (simp add: scenario_mailing_def)
  have h3: "end_time scenario_mailing = Some 100" by (simp add: scenario_mailing_def)
  have h4: "\<not> not_pk scenario_mailing" by (simp add: not_pk_def scenario_mailing_def)
  have h5: "not_pk fresh_instance \<longrightarrow>
      start_time fresh_instance = None \<and> end_time fresh_instance = None"
    by (simp add: fresh_instance_def)
  have h6: "not_pk fresh_instance" by (simp add: not_pk_def fresh_instance_def)
  note t = validation_reports_one_field[OF h2 h3 h5, of 50 50 50]
  have c: "clean 50 scenario_mailing = None" using t h4 by simp
  have a: "''start_time'' \<in> set (MailingForm_full_clean 50 50 fresh_instance
     \<lparr>cd_start_time = Some 0, cd_end_time = Some 100\<rparr>)"
    using t h6 by simp
  have b: "set (MailingForm_full_clean 50 50 fresh_instance
     \<lparr>cd_start_time = Some 0, cd_end_time = Some 100\<rparr>) = {''start_time''}"
    using a form_fields[OF h5, of 50 50 0 100] h6 by simp
  have h7: "start_time fresh_instance = None \<and> end_time fresh_instance = None"
    by (simp add: fresh_instance_def)
  show ?thesis using h2 h3 h4 h6 h7 c b by simp
qed

text \<open>
  C7 as stated fails for a new mailing with \<open>start_time = 5\<close>, \<open>end_time = 3\<close>
  validated at time 10: it is new, starts in the past and has a reversed window, yet
  \<^verbatim>\<open>Mailing.clean\<close> reports \<^verbatim>\<open>end_time\<close> alone and the form reports
  \<^verbatim>\<open>start_time\<close> alone.
\<close>

theorem clean_reports_both_counterexample:
  "start_time reversed_mailing = Some 5 \<and> end_time reversed_mailing = Some 3 \<and>
   not_pk reversed_mailing \<and> not_pk fresh_instance \<and> (5::int) < 10 \<and> (5::int) \<ge> 3 \<and>
   clean 10 reversed_mailing = Some (ValidationError [''end_time'']) \<and>
   \<not> tagged ''start_time'' (clean 10 reversed_mailing) \<and>
   MailingForm_full_clean 10 10 fresh_instance
     \<lparr>cd_start_time = Some 5, cd_end_time = Some 3\<rparr> = [''start_time'']"
  by (simp add: reversed_mailing_def fresh_instance_def scenario_mailing_def clean_def
      not_pk_def tagged_def MailingForm_full_clean_def clean_start_time_def
      MailingForm_clean_def drop_fields_def construct_instance_def)

subsection \<open>The activation flag\<close>

text \<open>
  Three general facts behind the scenarios below: on every instance loaded from the
  database \<^verbatim>\<open>mailing.is_active\<close> is the bound method; the manual send never
  answers with the refusal "deactivated by a manager"; and after the toggle, whoever
  calls it, every mailing loads exactly as before.
\<close>

lemma loaded_is_active_truthy:
  "get_object w k = Some mailing \<Longrightarrow> getattr_is_active mailing = PBoundMethod"
  by (auto simp add: get_object_def getattr_is_active_def)

lemma send_mailing_never_refuses_inactive:
  "fst (send_mailing ev now1 now2 request_user k w) \<noteq>
     Redirect (To_mailing_detail k) [(ERROR, Deactivated_by_manager)]"
proof (cases request_user)
  case None
  then show ?thesis by (simp add: send_mailing_def)
next
  case (Some u)
  show ?thesis
  proof (cases "get_object w k")
    case None
    then show ?thesis using Some by (simp add: send_mailing_def)
  next
    case (Some mailing)
    then have "truthy (getattr_is_active mailing)"
      by (simp add: loaded_is_active_truthy)
    then show ?thesis
      using Some \<open>request_user = Some u\<close>
      by (auto simp add: send_mailing_def split: sum.splits bool.splits prod.splits)
  qed
qed

lemma toggle_not_persistent:
  "get_object (snd (toggle_mailing_active request_user k w)) j = get_object w j"
  by (auto simp add: toggle_mailing_active_def save_def get_object_def Let_def update_conv'
      split: option.splits)

text \<open>
  C4. A manager deactivates mailing 1 (the view answers "deactivated"); the owner then
  triggers the manual send inside the window. The guard \<^verbatim>\<open>if not mailing.is_active\<close>
  reads the bound method, which is truthy, so the send is not refused: both recipients
  are mailed and two attempts are recorded.
\<close>

theorem deactivated_mailing_is_sent:
  "toggle_mailing_active (Some manager_user) 1 scenario_world =
     (Redirect (To_mailing_detail 1) [(SUCCESS, Toggled False)], scenario_world) \<and>
   send_mailing scenario_env 50 60 (Some owner_user) 1
       (snd (toggle_mailing_active (Some manager_user) 1 scenario_world)) =
     (Redirect (To_mailing_detail 1) [(SUCCESS, Sent_count 1), (WARNING, Failed_count 1)],
      \<lparr>mailings = [(1, scenario_mailing\<lparr>status := STATUS_STARTED\<rparr>)],
       attempts =
         [\<lparr>att_mailing = Some 1, att_status = STATUS_SUCCESS,
           server_response = Some delivered, recipient_email = Some ''a@x.com''\<rparr>,
          \<lparr>att_mailing = Some 1, att_status = STATUS_FAILED,
           server_response = Some ''mailbox full'', recipient_email = Some ''b@x.com''\<rparr>],
       outbox =
         [\<lparr>mail_subject = ''News'', mail_message = ''Hello'', from_email = ''noreply@x.com'',
           recipient_list = [''a@x.com'']\<rparr>,
          \<lparr>mail_subject = ''News'', mail_message = ''Hello'', from_email = ''noreply@x.com'',
           recipient_list = [''b@x.com'']\<rparr>]\<rparr>)"
  by (simp add: toggle_mailing_active_def send_mailing_def get_object_def save_def
      getattr_is_active_def can_manage_users_def is_manager_def manager_user_def owner_user_def
      scenario_world_def scenario_mailing_def scenario_env_def can_send_def
      mail_to_def create_attempt_def update_status_def new_status_def
      save_update_fields_status_def Let_def)

text \<open>
  C5. \<^verbatim>\<open>is_active\<close> is not among the model's fields, and on a loaded mailing the
  attribute is the bound method. The toggle of a manager assigns \<^verbatim>\<open>False\<close> on the
  instance and saves, which writes no such column: the table is as before, the mailing
  loaded afterwards has the bound method again, and a second toggle answers
  "deactivated" once more.
\<close>

theorem toggle_changes_nothing_stored:
  "''is_active'' \<notin> set (model_fields Mailing_body) \<and>
   getattr_is_active scenario_mailing = PBoundMethod \<and>
   toggle_mailing_active (Some manager_user) 1 scenario_world =
     (Redirect (To_mailing_detail 1) [(SUCCESS, Toggled False)], scenario_world) \<and>
   map_option getattr_is_active
     (get_object (snd (toggle_mailing_active (Some manager_user) 1 scenario_world)) 1) =
     Some PBoundMethod \<and>
   toggle_mailing_active (Some manager_user) 1
       (snd (toggle_mailing_active (Some manager_user) 1 scenario_world)) =
     (Redirect (To_mailing_detail 1) [(SUCCESS, Toggled False)], scenario_world)"
  by (simp add: toggle_mailing_active_def get_object_def save_def Mailing_model_fields
      getattr_is_active_def can_manage_users_def is_manager_def manager_user_def
      scenario_world_def scenario_mailing_def Let_def)

text \<open>
  C6. The command, run on the mailing a manager has just deactivated: it never reads
  \<^verbatim>\<open>is_active\<close>, mails both recipients and records two attempts.
\<close>

theorem command_sends_deactivated_mailing:
  "handle scenario_env 50 60 1
       (snd (toggle_mailing_active (Some manager_user) 1 scenario_world)) =
     (Printed
        [(PLAIN, Starting 1), (PLAIN, Message_subject ''News''), (PLAIN, Recipient_count 2),
         (PLAIN, Rule), (SUCCESS, Sent_to ''a@x.com''),
         (ERROR, Error_for ''b@x.com'' ''mailbox full''), (PLAIN, Rule),
         (SUCCESS, Total_sent 1), (WARNING, Total_failed 1),
         (SUCCESS, Finished STATUS_STARTED)],
      \<lparr>mailings = [(1, scenario_mailing\<lparr>status := STATUS_STARTED\<rparr>)],
       attempts =
         [\<lparr>att_mailing = Some 1, att_status = STATUS_SUCCESS,
           server_response = Some delivered, recipient_email = Some ''a@x.com''\<rparr>,
          \<lparr>att_mailing = Some 1, att_status = STATUS_FAILED,
           server_response = Some ''mailbox full'', recipient_email = Some ''b@x.com''\<rparr>],
       outbox =
         [\<lparr>mail_subject = ''News'', mail_message = ''Hello'', from_email = ''noreply@x.com'',
           recipient_list = [''a@x.com'']\<rparr>,
          \<lparr>mail_subject = ''News'', mail_message = ''Hello'', from_email = ''noreply@x.com'',
           recipient_list = [''b@x.com'']\<rparr>]\<rparr>)"
  by (simp add: toggle_mailing_active_def handle_def get_object_def save_def
      getattr_is_active_def can_manage_users_def is_manager_def manager_user_def
      scenario_world_def scenario_mailing_def scenario_env_def can_send_def
      mail_to_def create_attempt_def update_status_def new_status_def
      save_update_fields_status_def Let_def)

end
